theory Spec2Isabelle
  imports Complex_Main "HOL-Library.AList"
begin

section \<open>Numbers and time as the libraries under the code have them\<close>

text \<open>
  The code under \<^verbatim>\<open>core/utils/external/circadian\<close> works on pandas timestamps and
  on NumPy floats. A \<^verbatim>\<open>pd.Timestamp\<close> is a count of nanoseconds since the epoch and a
  \<^verbatim>\<open>pd.Timedelta\<close> a signed count of nanoseconds; both are modelled as \<open>int\<close> (the 64-bit
  range, outside of which pandas raises, is not modelled). A float is modelled as a real number
  or one of the three IEEE markers; rounding is not modelled.
\<close>

datatype flt = Fin real | PInf | NInf | NaN

text \<open>
  \<^verbatim>\<open>Timedelta.seconds\<close>: the seconds component of the normalised timedelta
  (days, seconds, microseconds, nanoseconds), at least 0 and less than one day. It is not the
  total number of seconds: for \<open>-1 hour\<close> the components are \<open>days = -1\<close>,
  \<open>seconds = 82800\<close>.
\<close>

definition td_seconds :: "int \<Rightarrow> int" where
  "td_seconds td = (td div 1000000000) mod 86400"

text \<open>
  \<^verbatim>\<open>/\<close> on two integer pandas Series is NumPy's true division on float64: a zero
  divisor raises nothing, it gives \<open>inf\<close>, \<open>-inf\<close> or (for \<open>0 / 0\<close>) \<open>nan\<close>.
\<close>

definition int_truediv :: "int \<Rightarrow> int \<Rightarrow> flt" where
  "int_truediv a b =
     (if b = 0 then (if a = 0 then NaN else if 0 < a then PInf else NInf)
      else Fin (real_of_int a / real_of_int b))"

definition hour :: int where
  "hour = 3600000000000"



definition minute :: int where
  "minute = 60000000000"

section \<open>\<^verbatim>\<open>readers.py\<close>: the fraction of each interval inside a reference interval\<close>

text \<open>
  \<^verbatim>\<open>interval_fraction(starts, stops, ref_start, ref_stop)\<close>. The two Series carry the same
  index (they are columns, or equally masked columns, of one dataframe), so the elementwise
  operations pair the entries by position.
\<close>

definition interval_fraction :: "int list \<Rightarrow> int list \<Rightarrow> int \<Rightarrow> int \<Rightarrow> flt list" where
  "interval_fraction starts stops ref_start ref_stop =
     (let max_starts = map (\<lambda>x. max x ref_start) starts;
          min_ends = map (\<lambda>x. min x ref_stop) stops;
          contained_intervals = map td_seconds (map2 (-) min_ends max_starts);
          full_intervals = map td_seconds (map2 (-) stops starts)
      in map2 int_truediv contained_intervals full_intervals)"

section \<open>\<^verbatim>\<open>readers.py\<close>: dataframes and their validation\<close>

text \<open>
  A dataframe is its named columns, in order, and its \<^verbatim>\<open>attrs\<close> dictionary. A column
  holds timestamps or numbers; all columns of one frame have the same length. The errors are
  the exceptions that the code and the libraries under it raise.
\<close>

datatype error = AttributeError | ValueError | KeyError | IndexError | TypeError

datatype pyval = PStr string | PObj

datatype column = TimeCol "int list" | NumCol "flt list"

record dataframe =
  cols :: "(string \<times> column) list"
  attrs :: "(string \<times> pyval) list"

definition columns :: "dataframe \<Rightarrow> string list" where
  "columns df = map fst (cols df)"

definition VALID_WEARABLE_STREAMS :: "string list" where
  "VALID_WEARABLE_STREAMS = [''steps'', ''heartrate'', ''wake'', ''light_estimate'', ''activity'']"

text \<open>\<^verbatim>\<open>WearableData._validate_columns\<close>\<close>

definition validate_columns :: "dataframe \<Rightarrow> error + unit" where
  "validate_columns obj =
     (if ''datetime'' \<notin> set (columns obj) \<and>
         (''start'' \<notin> set (columns obj) \<and> ''end'' \<notin> set (columns obj))
      then Inl AttributeError
      else if \<not> list_ex (\<lambda>col. col \<in> set (columns obj)) VALID_WEARABLE_STREAMS
      then Inl AttributeError
      else Inr ())"

fun is_str :: "pyval \<Rightarrow> bool" where
  "is_str (PStr s) = True"
| "is_str PObj = False"

text \<open>\<^verbatim>\<open>WearableData._validate_metadata\<close>; an empty dictionary is falsy and passes.\<close>

definition validate_metadata :: "(string \<times> pyval) list \<Rightarrow> error + unit" where
  "validate_metadata metadata =
     (if metadata \<noteq> [] then
        (if \<not> list_ex (\<lambda>key. key \<in> set (map fst metadata)) [''data_id'', ''subject_id'']
         then Inl AttributeError
         else if \<not> list_all is_str (map snd metadata)
         then Inl AttributeError
         else Inr ())
      else Inr ())"

text \<open>\<^verbatim>\<open>WearableData.__init__\<close>: what reading \<^verbatim>\<open>df.wearable\<close> does first.\<close>

definition wearable :: "dataframe \<Rightarrow> error + dataframe" where
  "wearable pandas_obj =
     (case validate_columns pandas_obj of Inl e \<Rightarrow> Inl e | Inr u \<Rightarrow> Inr pandas_obj)"

text \<open>\<^verbatim>\<open>WearableData.is_valid\<close>, on the object the accessor holds.\<close>

definition is_valid :: "dataframe \<Rightarrow> error + bool" where
  "is_valid obj =
     (case validate_columns obj of Inl e \<Rightarrow> Inl e
      | Inr u \<Rightarrow> (case validate_metadata (attrs obj) of Inl e \<Rightarrow> Inl e
                  | Inr u' \<Rightarrow> Inr True))"

text \<open>\<^verbatim>\<open>df.wearable.is_valid()\<close>\<close>

definition wearable_is_valid :: "dataframe \<Rightarrow> error + bool" where
  "wearable_is_valid df = (case wearable df of Inl e \<Rightarrow> Inl e | Inr obj \<Rightarrow> is_valid obj)"

text \<open>\<^verbatim>\<open>df.wearable.add_metadata(metadata, inplace=True)\<close>\<close>

definition add_metadata :: "dataframe \<Rightarrow> (string \<times> pyval) list \<Rightarrow> error + dataframe" where
  "add_metadata df metadata =
     (case wearable df of Inl e \<Rightarrow> Inl e
      | Inr obj \<Rightarrow>
          (case validate_metadata metadata of Inl e \<Rightarrow> Inl e
           | Inr u \<Rightarrow>
               Inr (obj\<lparr>attrs := fold (\<lambda>(key, v) a. AList.update key v a) metadata (attrs obj)\<rparr>)))"

section \<open>\<^verbatim>\<open>readers.py\<close>: resampling\<close>

text \<open>
  Float arithmetic with the IEEE markers, and the pandas reductions \<^verbatim>\<open>Series.agg\<close>
  dispatches to. They skip \<open>nan\<close> entries; \<open>inf\<close> is an ordinary value.
\<close>

fun flt_add :: "flt \<Rightarrow> flt \<Rightarrow> flt" where
  "flt_add (Fin a) (Fin b) = Fin (a + b)"
| "flt_add NaN y = NaN"
| "flt_add x NaN = NaN"
| "flt_add PInf NInf = NaN"
| "flt_add NInf PInf = NaN"
| "flt_add PInf y = PInf"
| "flt_add NInf y = NInf"
| "flt_add x PInf = PInf"
| "flt_add x NInf = NInf"

fun flt_neg :: "flt \<Rightarrow> flt" where
  "flt_neg (Fin a) = Fin (- a)"
| "flt_neg PInf = NInf"
| "flt_neg NInf = PInf"
| "flt_neg NaN = NaN"

fun flt_scale_inf :: "real \<Rightarrow> flt" where
  "flt_scale_inf a = (if a = 0 then NaN else if 0 < a then PInf else NInf)"

fun flt_mult :: "flt \<Rightarrow> flt \<Rightarrow> flt" where
  "flt_mult (Fin a) (Fin b) = Fin (a * b)"
| "flt_mult NaN y = NaN"
| "flt_mult x NaN = NaN"
| "flt_mult PInf (Fin b) = flt_scale_inf b"
| "flt_mult NInf (Fin b) = flt_neg (flt_scale_inf b)"
| "flt_mult (Fin a) PInf = flt_scale_inf a"
| "flt_mult (Fin a) NInf = flt_neg (flt_scale_inf a)"
| "flt_mult PInf PInf = PInf"
| "flt_mult NInf NInf = PInf"
| "flt_mult PInf NInf = NInf"
| "flt_mult NInf PInf = NInf"

fun flt_less :: "flt \<Rightarrow> flt \<Rightarrow> bool" where
  "flt_less (Fin a) (Fin b) = (a < b)"
| "flt_less NaN y = False"
| "flt_less x NaN = False"
| "flt_less NInf NInf = False"
| "flt_less NInf y = True"
| "flt_less PInf y = False"
| "flt_less x PInf = True"
| "flt_less x NInf = False"


definition flt_max :: "flt \<Rightarrow> flt \<Rightarrow> flt" where
  "flt_max x y = (if flt_less y x then x else y)"

definition flt_min :: "flt \<Rightarrow> flt \<Rightarrow> flt" where
  "flt_min x y = (if flt_less x y then x else y)"

fun flt_div_count :: "flt \<Rightarrow> nat \<Rightarrow> flt" where
  "flt_div_count (Fin a) n = Fin (a / real n)"
| "flt_div_count x n = x"

definition agg :: "string \<Rightarrow> flt list \<Rightarrow> flt" where
  "agg agg_method xs =
     (let ys = filter (\<lambda>v. v \<noteq> NaN) xs
      in if agg_method = ''sum'' then fold flt_add ys (Fin 0)
         else if agg_method = ''mean'' then
           (if ys = [] then NaN else flt_div_count (fold flt_add ys (Fin 0)) (length ys))
         else if agg_method = ''max'' then
           (case ys of [] \<Rightarrow> NaN | y # ys' \<Rightarrow> fold flt_max ys' y)
         else
           (case ys of [] \<Rightarrow> NaN | y # ys' \<Rightarrow> fold flt_min ys' y))"

text \<open>
  A timestamp value that may be \<^verbatim>\<open>pd.NaT\<close>, which is what \<^verbatim>\<open>Series.min()\<close> and
  \<^verbatim>\<open>Series.max()\<close> return on a column without rows. The columns themselves hold no NaT.
\<close>

datatype timestamp = NaT | TS int

fun ts_min :: "int list \<Rightarrow> timestamp" where
  "ts_min [] = NaT"
| "ts_min (x # xs) = TS (fold min xs x)"

fun ts_max :: "int list \<Rightarrow> timestamp" where
  "ts_max [] = NaT"
| "ts_max (x # xs) = TS (fold max xs x)"

text \<open>
  \<^verbatim>\<open>df.start\<close>, \<^verbatim>\<open>df.end\<close>, \<^verbatim>\<open>df.datetime\<close>: attribute access to a column that is
  not there raises AttributeError. The model reports a column of the wrong kind as TypeError at
  this point, where pandas fails later, on mixing numbers and timestamps.
\<close>

definition time_column :: "dataframe \<Rightarrow> string \<Rightarrow> error + int list" where
  "time_column df name =
     (case map_of (cols df) name of
        None \<Rightarrow> Inl AttributeError
      | Some (TimeCol ts) \<Rightarrow> Inr ts
      | Some (NumCol xs) \<Rightarrow> Inl TypeError)"

text \<open>\<^verbatim>\<open>df[name]\<close> for a stream column.\<close>

definition num_column :: "dataframe \<Rightarrow> string \<Rightarrow> error + flt list" where
  "num_column df name =
     (case map_of (cols df) name of
        None \<Rightarrow> Inl KeyError
      | Some (NumCol xs) \<Rightarrow> Inr xs
      | Some (TimeCol ts) \<Rightarrow> Inl TypeError)"

text \<open>
  \<^verbatim>\<open>pd.date_range(start, end, freq=freq)\<close> for a tick frequency (a multiple of days, hours,
  minutes, seconds or a fraction of a second), given as the timedelta
  \<^verbatim>\<open>pd.to_timedelta(freq)\<close> in nanoseconds: \<open>start\<close>, \<open>start + freq\<close>, ... up to the last
  point not after \<open>end\<close>. NaT bounds raise ValueError. Anchored offsets (weeks, months) and
  frequencies that are not positive are not modelled; the model reports the latter as
  ValueError.
\<close>

definition date_range :: "timestamp \<Rightarrow> timestamp \<Rightarrow> int \<Rightarrow> error + int list" where
  "date_range start stop freq =
     (case (start, stop) of
        (TS a, TS b) \<Rightarrow>
          (if freq \<le> 0 then Inl ValueError
           else Inr (if b < a then []
                     else map (\<lambda>k. a + int k * freq) [0..<nat ((b - a) div freq) + 1]))
      | _ \<Rightarrow> Inl ValueError)"

text \<open>Boolean indexing \<^verbatim>\<open>xs[mask]\<close>.\<close>

definition masked :: "bool list \<Rightarrow> 'a list \<Rightarrow> 'a list" where
  "masked bmask xs = map snd (filter fst (zip bmask xs))"

text \<open>The body of the loop over the new grid, for data given in intervals.\<close>

definition interval_bucket ::
  "int list \<Rightarrow> int list \<Rightarrow> flt list \<Rightarrow> string \<Rightarrow> int \<Rightarrow> int \<Rightarrow> flt" where
  "interval_bucket starts stops vals agg_method freq datetime =
     (let next_datetime = datetime + freq;
          bmask = map2 (\<lambda>s e. s \<le> next_datetime \<and> e > datetime) starts stops
      in if length (masked bmask vals) > 0 then
           (let value_fraction =
                  interval_fraction (masked bmask starts) (masked bmask stops) datetime next_datetime
            in agg agg_method (map2 flt_mult (masked bmask vals) value_fraction))
         else Fin 0)"

text \<open>The body of the loop over the new grid, for data given per datetime.\<close>

definition instant_bucket :: "int list \<Rightarrow> flt list \<Rightarrow> string \<Rightarrow> int \<Rightarrow> int \<Rightarrow> flt" where
  "instant_bucket data_datetimes vals agg_method freq datetime =
     (let next_datetime = datetime + freq;
          bmask = map (\<lambda>d. d \<le> next_datetime \<and> d \<ge> datetime) data_datetimes
      in if length (masked bmask vals) > 0 then agg agg_method (masked bmask vals)
         else Fin 0)"

fun default_bound :: "timestamp option \<Rightarrow> timestamp \<Rightarrow> timestamp" where
  "default_bound None d = d"
| "default_bound (Some t) d = t"

text \<open>
  \<^verbatim>\<open>resample_df(df, name, freq, agg_method, initial_datetime, final_datetime)\<close>. The
  \<^verbatim>\<open>isinstance\<close> checks on \<open>df\<close> and \<open>freq\<close> hold by typing; NaT is not an instance of
  \<^verbatim>\<open>pd.Timestamp\<close>.
\<close>

definition resample_df ::
  "dataframe \<Rightarrow> string \<Rightarrow> int \<Rightarrow> string \<Rightarrow> timestamp option \<Rightarrow> timestamp option
     \<Rightarrow> error + dataframe" where
  "resample_df df name freq agg_method initial_datetime final_datetime =
     (case wearable_is_valid df of Inl e \<Rightarrow> Inl e
      | Inr ok \<Rightarrow>
     if name \<notin> set VALID_WEARABLE_STREAMS then Inl AttributeError
     else if name \<notin> set (columns df) then Inl AttributeError
     else if agg_method \<notin> set [''sum'', ''mean'', ''max'', ''min''] then Inl AttributeError
     else if initial_datetime = Some NaT then Inl AttributeError
     else if final_datetime = Some NaT then Inl AttributeError
     else
     (case num_column df name of Inl e \<Rightarrow> Inl e
      | Inr vals \<Rightarrow>
     if ''start'' \<in> set (columns df) \<and> ''end'' \<in> set (columns df) then
       (case time_column df ''start'' of Inl e \<Rightarrow> Inl e
        | Inr starts \<Rightarrow>
       (case time_column df ''end'' of Inl e \<Rightarrow> Inl e
        | Inr stops \<Rightarrow>
       (case date_range (default_bound initial_datetime (ts_min starts))
                        (default_bound final_datetime (ts_max stops)) freq of
          Inl e \<Rightarrow> Inl e
        | Inr new_datetime \<Rightarrow>
            Inr \<lparr>cols = [(''datetime'', TimeCol new_datetime),
                         (name, NumCol (map (interval_bucket starts stops vals agg_method freq)
                                            new_datetime))],
                 attrs = []\<rparr>)))
     else
       (case time_column df ''datetime'' of Inl e \<Rightarrow> Inl e
        | Inr data_datetimes \<Rightarrow>
       (case date_range (default_bound initial_datetime (ts_min data_datetimes))
                        (default_bound final_datetime (ts_max data_datetimes)) freq of
          Inl e \<Rightarrow> Inl e
        | Inr new_datetime \<Rightarrow>
            Inr \<lparr>cols = [(''datetime'', TimeCol new_datetime),
                         (name, NumCol (map (instant_bucket data_datetimes vals agg_method freq)
                                            new_datetime))],
                 attrs = []\<rparr>))))"

section \<open>\<^verbatim>\<open>readers.py\<close>: combining streams\<close>

definition WEARABLE_RESAMPLE_METHOD :: "(string \<times> string) list" where
  "WEARABLE_RESAMPLE_METHOD =
     [(''steps'', ''sum''), (''wake'', ''max''), (''heartrate'', ''mean''),
      (''light_estimate'', ''mean''), (''activity'', ''mean'')]"

text \<open>
  Python's \<^verbatim>\<open>min\<close> and \<^verbatim>\<open>max\<close> on a list: ValueError on the empty list; otherwise the
  first item is kept until a later one compares smaller (greater). Every comparison with NaT is
  false.
\<close>

fun ts_less :: "timestamp \<Rightarrow> timestamp \<Rightarrow> bool" where
  "ts_less (TS a) (TS b) = (a < b)"
| "ts_less x y = False"

fun py_min :: "timestamp list \<Rightarrow> error + timestamp" where
  "py_min [] = Inl ValueError"
| "py_min (x # xs) = Inr (fold (\<lambda>item m. if ts_less item m then item else m) xs x)"

fun py_max :: "timestamp list \<Rightarrow> error + timestamp" where
  "py_max [] = Inl ValueError"
| "py_max (x # xs) = Inr (fold (\<lambda>item m. if ts_less m item then item else m) xs x)"

text \<open>The first loop of \<^verbatim>\<open>combine_wearable_dataframes\<close>: one stream's bounds.\<close>

definition stream_span :: "dataframe \<Rightarrow> error + timestamp \<times> timestamp" where
  "stream_span df =
     (case wearable_is_valid df of Inl e \<Rightarrow> Inl e
      | Inr ok \<Rightarrow>
     if ''start'' \<in> set (columns df) then
       (case time_column df ''start'' of Inl e \<Rightarrow> Inl e
        | Inr starts \<Rightarrow>
       (case time_column df ''end'' of Inl e \<Rightarrow> Inl e
        | Inr stops \<Rightarrow> Inr (ts_min starts, ts_max stops)))
     else
       (case time_column df ''datetime'' of Inl e \<Rightarrow> Inl e
        | Inr data_datetimes \<Rightarrow> Inr (ts_min data_datetimes, ts_max data_datetimes)))"

fun collect_spans :: "(string \<times> dataframe) list \<Rightarrow> error + timestamp list \<times> timestamp list" where
  "collect_spans [] = Inr ([], [])"
| "collect_spans ((name, df) # rest) =
     (case stream_span df of Inl e \<Rightarrow> Inl e
      | Inr (lo, hi) \<Rightarrow>
          (case collect_spans rest of Inl e \<Rightarrow> Inl e
           | Inr (initial_datetimes, final_datetimes) \<Rightarrow>
               Inr (lo # initial_datetimes, hi # final_datetimes)))"

text \<open>The second loop: every stream resampled to the common bounds.\<close>

fun resample_each ::
  "(string \<times> dataframe) list \<Rightarrow> int \<Rightarrow> timestamp \<Rightarrow> timestamp \<Rightarrow> error + dataframe list" where
  "resample_each [] freq initial_datetime final_datetime = Inr []"
| "resample_each ((name, df) # rest) freq initial_datetime final_datetime =
     (case map_of WEARABLE_RESAMPLE_METHOD name of None \<Rightarrow> Inl KeyError
      | Some agg_method \<Rightarrow>
     (case resample_df df name freq agg_method (Some initial_datetime) (Some final_datetime) of
        Inl e \<Rightarrow> Inl e
      | Inr new_df \<Rightarrow>
     (case resample_each rest freq initial_datetime final_datetime of Inl e \<Rightarrow> Inl e
      | Inr df_list \<Rightarrow> Inr (new_df # df_list))))"

text \<open>
  \<^verbatim>\<open>left.merge(right, on='datetime', how='outer')\<close>. The keys of the result are the keys of
  both frames, each once, in ascending order; a key that occurs \<open>m\<close> times on the left and \<open>n\<close>
  times on the right gives \<open>m * n\<close> rows; a key missing on one side gives that side's columns
  \<open>nan\<close>. A column name that both sides have gets the suffixes \<^verbatim>\<open>_x\<close> and \<^verbatim>\<open>_y\<close>. The
  frames merged here come from \<^verbatim>\<open>resample_df\<close>: the key column comes first and all other
  columns hold numbers. The model puts the key first, and stops with TypeError on another
  column of timestamps, which it could not fill with NaT.
\<close>

definition positions :: "int \<Rightarrow> int list \<Rightarrow> nat list" where
  "positions k ks = filter (\<lambda>i. ks ! i = k) [0..<length ks]"

definition join_rows :: "nat list \<Rightarrow> nat list \<Rightarrow> (nat option \<times> nat option) list" where
  "join_rows ls rs =
     (if ls = [] then map (\<lambda>j. (None, Some j)) rs
      else if rs = [] then map (\<lambda>i. (Some i, None)) ls
      else map (\<lambda>(i, j). (Some i, Some j)) (List.product ls rs))"

fun take_rows :: "nat option list \<Rightarrow> column \<Rightarrow> error + column" where
  "take_rows idx (NumCol xs) =
     Inr (NumCol (map (\<lambda>i. case i of None \<Rightarrow> NaN | Some j \<Rightarrow> xs ! j) idx))"
| "take_rows idx (TimeCol ts) = Inl TypeError"

fun take_columns ::
  "(string \<Rightarrow> string) \<Rightarrow> nat option list \<Rightarrow> (string \<times> column) list
     \<Rightarrow> error + (string \<times> column) list" where
  "take_columns rename idx [] = Inr []"
| "take_columns rename idx ((n, c) # rest) =
     (case take_rows idx c of Inl e \<Rightarrow> Inl e
      | Inr c' \<Rightarrow>
          (case take_columns rename idx rest of Inl e \<Rightarrow> Inl e
           | Inr cs \<Rightarrow> Inr ((rename n, c') # cs)))"

text \<open>The rows of the outer join: the key, and the row on either side (if any).\<close>

definition outer_join :: "int list \<Rightarrow> int list \<Rightarrow> (int \<times> nat option \<times> nat option) list" where
  "outer_join lk rk =
     concat (map (\<lambda>k. map (\<lambda>(i, j). (k, i, j)) (join_rows (positions k lk) (positions k rk)))
                 (sort (remdups (lk @ rk))))"

definition merge_outer :: "dataframe \<Rightarrow> dataframe \<Rightarrow> error + dataframe" where
  "merge_outer left right =
     (case time_column left ''datetime'' of Inl e \<Rightarrow> Inl KeyError
      | Inr lk \<Rightarrow>
     (case time_column right ''datetime'' of Inl e \<Rightarrow> Inl KeyError
      | Inr rk \<Rightarrow>
     (let rows = outer_join lk rk;
          lrest = filter (\<lambda>(n, c). n \<noteq> ''datetime'') (cols left);
          rrest = filter (\<lambda>(n, c). n \<noteq> ''datetime'') (cols right);
          lname = (\<lambda>n. if n \<in> set (map fst rrest) then n @ ''_x'' else n);
          rname = (\<lambda>n. if n \<in> set (map fst lrest) then n @ ''_y'' else n)
      in case take_columns lname (map (\<lambda>(k, i, j). i) rows) lrest of Inl e \<Rightarrow> Inl e
         | Inr lcols \<Rightarrow>
        (case take_columns rname (map (\<lambda>(k, i, j). j) rows) rrest of Inl e \<Rightarrow> Inl e
         | Inr rcols \<Rightarrow>
             Inr \<lparr>cols = (''datetime'', TimeCol (map (\<lambda>(k, i, j). k) rows)) # lcols @ rcols,
                  attrs = (if attrs left = attrs right then attrs left else [])\<rparr>))))"

fun merge_all :: "dataframe \<Rightarrow> dataframe list \<Rightarrow> error + dataframe" where
  "merge_all df [] = Inr df"
| "merge_all df (d # ds) =
     (case merge_outer df d of Inl e \<Rightarrow> Inl e | Inr df' \<Rightarrow> merge_all df' ds)"

text \<open>
  \<^verbatim>\<open>df.sort_values(by='datetime', inplace=True)\<close>: the rows in ascending order of the key.
  (The model sorts stably; pandas' default sort need not, which shows only between rows of
  equal key.)
\<close>

fun reorder :: "nat list \<Rightarrow> column \<Rightarrow> column" where
  "reorder perm (TimeCol ts) = TimeCol (map (\<lambda>i. ts ! i) perm)"
| "reorder perm (NumCol xs) = NumCol (map (\<lambda>i. xs ! i) perm)"

definition sort_values :: "dataframe \<Rightarrow> error + dataframe" where
  "sort_values df =
     (case time_column df ''datetime'' of Inl e \<Rightarrow> Inl KeyError
      | Inr ks \<Rightarrow>
          (let perm = sort_key (\<lambda>i. ks ! i) [0..<length ks]
           in Inr (df\<lparr>cols := map (\<lambda>(n, c). (n, reorder perm c)) (cols df)\<rparr>)))"

definition combine_wearable_dataframes ::
  "(string \<times> dataframe) list \<Rightarrow> int \<Rightarrow> (string \<times> pyval) list option \<Rightarrow> error + dataframe" where
  "combine_wearable_dataframes df_dict resample_freq metadata =
     (case collect_spans df_dict of Inl e \<Rightarrow> Inl e
      | Inr (initial_datetimes, final_datetimes) \<Rightarrow>
     (case py_min initial_datetimes of Inl e \<Rightarrow> Inl e
      | Inr initial_datetime \<Rightarrow>
     (case py_max final_datetimes of Inl e \<Rightarrow> Inl e
      | Inr final_datetime \<Rightarrow>
     (case resample_each df_dict resample_freq initial_datetime final_datetime of Inl e \<Rightarrow> Inl e
      | Inr df_list \<Rightarrow>
     (case df_list of [] \<Rightarrow> Inl IndexError
      | df0 # rest \<Rightarrow>
     (case merge_all df0 rest of Inl e \<Rightarrow> Inl e
      | Inr merged \<Rightarrow>
     (case sort_values merged of Inl e \<Rightarrow> Inl e
      | Inr df \<Rightarrow>
          add_metadata df
            (case metadata of Some m \<Rightarrow> m
             | None \<Rightarrow> [(''data_id'', PStr ''combined_dataframe'')]))))))))"

text \<open>
  What the properties below call a valid input stream under the key \<open>name\<close> of the
  dictionary: a frame that passes \<^verbatim>\<open>is_valid\<close>, has rows, and holds numbers in the column
  \<open>name\<close> and timestamps in \<^verbatim>\<open>start\<close> and \<^verbatim>\<open>end\<close> (no start after its end) or, without a
  \<^verbatim>\<open>start\<close> column, in \<^verbatim>\<open>datetime\<close>. \<open>stream_rows\<close> gives the lower bounds, the upper
  bounds and the values of its records.
\<close>

definition stream_rows :: "dataframe \<Rightarrow> string \<Rightarrow> (int list \<times> int list \<times> flt list) option" where
  "stream_rows df name =
     (case map_of (cols df) name of
        Some (NumCol vs) \<Rightarrow>
          (if ''start'' \<in> set (columns df) then
             (case (map_of (cols df) ''start'', map_of (cols df) ''end'') of
                (Some (TimeCol ss), Some (TimeCol es)) \<Rightarrow> Some (ss, es, vs)
              | _ \<Rightarrow> None)
           else
             (case map_of (cols df) ''datetime'' of
                Some (TimeCol ds) \<Rightarrow> Some (ds, ds, vs)
              | _ \<Rightarrow> None))
      | _ \<Rightarrow> None)"

definition valid_stream :: "string \<Rightarrow> dataframe \<Rightarrow> bool" where
  "valid_stream name df =
     (name \<in> set VALID_WEARABLE_STREAMS \<and> wearable_is_valid df = Inr True \<and>
      (case stream_rows df name of
         None \<Rightarrow> False
       | Some (los, his, vs) \<Rightarrow>
           los \<noteq> [] \<and> length los = length vs \<and> length his = length vs \<and>
           list_all2 (\<le>) los his))"

definition stream_lower :: "string \<times> dataframe \<Rightarrow> int" where
  "stream_lower s = (case stream_rows (snd s) (fst s) of
                       Some (los, his, vs) \<Rightarrow> Min (set los) | None \<Rightarrow> 0)"

definition stream_upper :: "string \<times> dataframe \<Rightarrow> int" where
  "stream_upper s = (case stream_rows (snd s) (fst s) of
                       Some (los, his, vs) \<Rightarrow> Max (set his) | None \<Rightarrow> 0)"

text \<open>
  The vocabulary of the property of \<^verbatim>\<open>combine_wearable_dataframes\<close>: the uniform grid from
  \<open>lo\<close> to \<open>hi\<close> with step \<open>f\<close>; a frame with the key column \<open>ks\<close> and the number columns
  \<open>cs\<close>; the least lower bound and the greatest upper bound over all streams; and a column
  that is 0 at every grid point whose window of one step ends before the stream's first bound
  or that lies after the stream's last bound.
\<close>

definition grid_points :: "int \<Rightarrow> int \<Rightarrow> int \<Rightarrow> int list" where
  "grid_points lo hi f = map (\<lambda>k. lo + int k * f) [0..<nat ((hi - lo) div f) + 1]"

definition table :: "int list \<Rightarrow> (string \<times> flt list) list \<Rightarrow> dataframe" where
  "table ks cs = \<lparr>cols = (''datetime'', TimeCol ks) # map (\<lambda>(n, v). (n, NumCol v)) cs, attrs = []\<rparr>"

definition common_lower :: "(string \<times> dataframe) list \<Rightarrow> int" where
  "common_lower df_dict = Min (stream_lower ` set df_dict)"

definition common_upper :: "(string \<times> dataframe) list \<Rightarrow> int" where
  "common_upper df_dict = Max (stream_upper ` set df_dict)"

definition zero_outside :: "int list \<Rightarrow> int \<Rightarrow> string \<times> dataframe \<Rightarrow> flt list \<Rightarrow> bool" where
  "zero_outside grid f s vals =
     (length vals = length grid \<and>
      (\<forall>i < length grid. grid ! i + f < stream_lower s \<or> stream_upper s < grid ! i
                          \<longrightarrow> vals ! i = Fin 0))"

section \<open>\<^verbatim>\<open>metrics.py\<close>: the entrainment signal regularity index\<close>

text \<open>
  \<^verbatim>\<open>np.diff\<close>, \<^verbatim>\<open>np.isclose\<close> with its default tolerances
  (\<open>rtol = 1e-05\<close>, \<open>atol = 1e-08\<close>), \<^verbatim>\<open>np.mod\<close> and \<^verbatim>\<open>np.arange\<close> on floats.
  \<^verbatim>\<open>np.arange(start, stop, step)\<close> has \<open>\<lceil>(stop - start) / step\<rceil>\<close> elements (none when that
  is not positive), so it never contains \<open>stop\<close>; a zero step raises ValueError.
\<close>

fun diff :: "real list \<Rightarrow> real list" where
  "diff (x # y # ys) = (y - x) # diff (y # ys)"
| "diff xs = []"

definition isclose :: "real \<Rightarrow> real \<Rightarrow> bool" where
  "isclose a b = (\<bar>a - b\<bar> \<le> 1 / 100000000 + 1 / 100000 * \<bar>b\<bar>)"

definition np_mod :: "real \<Rightarrow> real \<Rightarrow> real" where
  "np_mod x m = x - m * of_int \<lfloor>x / m\<rfloor>"

text \<open>\<^verbatim>\<open>np.pi\<close> is a float constant.\<close>

definition np_pi :: real where
  "np_pi = 3141592653589793 / 1000000000000000"

definition arange :: "real \<Rightarrow> real \<Rightarrow> real \<Rightarrow> error + real list" where
  "arange start stop step =
     (if step = 0 then Inl ValueError
      else Inr (map (\<lambda>i. start + real i * step) [0..<nat \<lceil>(stop - start) / step\<rceil>]))"

text \<open>
  \<^verbatim>\<open>np.interp(x, xp, fp)\<close> for increasing sample points \<open>xp\<close>: linear between two
  neighbouring samples, the first and the last sample value outside of them. The last
  equation of \<open>interp1\<close> stands for sample lists that are empty or of different lengths,
  which \<^verbatim>\<open>esri\<close> rules out before it interpolates.
\<close>

fun interp1 :: "real \<Rightarrow> real list \<Rightarrow> real list \<Rightarrow> real" where
  "interp1 x (x0 # x1 # xp) (f0 # f1 # fp) =
     (if x \<le> x0 then f0
      else if x < x1 then f0 + (x - x0) * (f1 - f0) / (x1 - x0)
      else interp1 x (x1 # xp) (f1 # fp))"
| "interp1 x [x0] (f0 # fp) = f0"
| "interp1 x xp fp = 0"

definition interp :: "real list \<Rightarrow> real list \<Rightarrow> real list \<Rightarrow> real list" where
  "interp xs xp fp = map (\<lambda>x. interp1 x xp fp) xs"

text \<open>
  What a call of \<^verbatim>\<open>esri\<close> does besides returning: it runs the oscillator model, once per
  starting point, and it may issue a warning.
\<close>

datatype event = Simulated real | Warned

text \<open>
  The oscillator model \<^verbatim>\<open>Hannay19(params={'K': 0.0, 'gamma': 0.0})\<close> comes from a module that
  is not part of the sources at hand. It is a parameter here: \<open>model\<close> maps the simulation
  times, the initial condition and the light samples to \<^verbatim>\<open>trajectory.states[-1, 0]\<close>, the
  amplitude at the end of the simulation, which is all that \<^verbatim>\<open>esri\<close> reads.
\<close>

type_synonym oscillator = "real list \<Rightarrow> real \<times> real \<times> real \<Rightarrow> real list \<Rightarrow> flt"

text \<open>
  The validation at the head of \<^verbatim>\<open>esri\<close>, in the order of the source; the
  \<^verbatim>\<open>isinstance\<close> checks hold by typing. \<^verbatim>\<open>np.diff(time)[0]\<close> raises IndexError on a
  series of fewer than two points.
\<close>

definition esri_validate :: "real list \<Rightarrow> real list \<Rightarrow> int \<Rightarrow> real \<Rightarrow> real \<Rightarrow> error option" where
  "esri_validate time light_schedule analysis_days esri_dt initial_amplitude =
     (if length time \<noteq> length light_schedule then Some ValueError
      else if diff time = [] then Some IndexError
      else if \<not> list_all (\<lambda>d. isclose d (hd (diff time))) (diff time) then Some ValueError
      else if analysis_days < 1 then Some ValueError
      else if esri_dt \<le> 0 then Some ValueError
      else if initial_amplitude < 0 then Some ValueError
      else None)"

text \<open>One pass of the loop over the starting points: the final amplitude for the start \<open>t\<close>.\<close>

definition esri_value ::
  "oscillator \<Rightarrow> real list \<Rightarrow> real list \<Rightarrow> int \<Rightarrow> real \<Rightarrow> real \<Rightarrow> real \<Rightarrow> real
     \<Rightarrow> error + flt" where
  "esri_value model time light_schedule analysis_days initial_amplitude phase_at_midnight
       simulation_dt t =
     (let initial_phase = phase_at_midnight + np_mod t 24 * np_pi / 12;
          initial_condition = (initial_amplitude, initial_phase, 0)
      in case arange t (t + of_int analysis_days * 24) simulation_dt of
           Inl e \<Rightarrow> Inl e
         | Inr simulation_time \<Rightarrow>
             Inr (model simulation_time initial_condition
                    (interp simulation_time time light_schedule)))"

text \<open>The loop: the events so far, and the filled array or the exception that ended it.\<close>

fun esri_loop :: "(real \<Rightarrow> error + flt) \<Rightarrow> real list \<Rightarrow> event list \<times> (error + flt list)" where
  "esri_loop body [] = ([], Inr [])"
| "esri_loop body (t # ts) =
     (case body t of
        Inl e \<Rightarrow> ([], Inl e)
      | Inr v \<Rightarrow>
          (case esri_loop body ts of
             (evs, Inl e) \<Rightarrow> (Simulated t # evs, Inl e)
           | (evs, Inr vs) \<Rightarrow> (Simulated t # evs, Inr (v # vs))))"

definition esri ::
  "oscillator \<Rightarrow> real list \<Rightarrow> real list \<Rightarrow> int \<Rightarrow> real \<Rightarrow> real \<Rightarrow> real
     \<Rightarrow> event list \<times> (error + real list \<times> flt list)" where
  "esri model time light_schedule analysis_days esri_dt initial_amplitude phase_at_midnight =
     (case esri_validate time light_schedule analysis_days esri_dt initial_amplitude of
        Some e \<Rightarrow> ([], Inl e)
      | None \<Rightarrow>
          (let simulation_dt = hd (diff time)
           in case arange (hd time) (last time - of_int analysis_days * 24) esri_dt of
                Inl e \<Rightarrow> ([], Inl e)
              | Inr esri_time \<Rightarrow>
                  (case esri_loop (esri_value model time light_schedule analysis_days
                                     initial_amplitude phase_at_midnight simulation_dt)
                                  esri_time of
                     (evs, Inl e) \<Rightarrow> (evs, Inl e)
                   | (evs, Inr raw) \<Rightarrow>
                       (let esri_array = map (\<lambda>v. if flt_less v (Fin 0) then NaN else v) raw
                        in (evs @ (if list_ex (\<lambda>v. v = NaN) esri_array then [Warned] else []),
                            Inr (esri_time, esri_array))))))"

section \<open>Properties of \<^verbatim>\<open>interval_fraction\<close>\<close>

lemma interval_fraction_length:
  "length (interval_fraction starts stops rs re) = min (length starts) (length stops)"
  by (simp add: interval_fraction_def Let_def)

lemma interval_fraction_nth:
  assumes "i < length starts" and "i < length stops"
  shows "interval_fraction starts stops rs re ! i =
           int_truediv (td_seconds (min (stops ! i) re - max (starts ! i) rs))
                       (td_seconds (stops ! i - starts ! i))"
  using assms by (simp add: interval_fraction_def Let_def)


lemma td_seconds_nonneg: "0 \<le> td_seconds d"
  by (simp add: td_seconds_def)





text \<open>
  Claim C4, as the code has it. A call in which a source interval has zero duration does not
  fail: it returns one entry per interval, and the entry of the zero-duration interval is
  \<open>nan\<close> when the seconds of its clipped difference are 0 and \<open>inf\<close> otherwise.
\<close>

theorem interval_fraction_zero_duration:
  assumes "length starts = length stops" and "i < length starts" and "starts ! i = stops ! i"
  shows "length (interval_fraction starts stops ref_start ref_stop) = length starts
         \<and> interval_fraction starts stops ref_start ref_stop ! i =
             (if td_seconds (min (stops ! i) ref_stop - max (starts ! i) ref_start) = 0
              then NaN else PInf)"
proof -
  define c where "c = td_seconds (min (stops ! i) ref_stop - max (starts ! i) ref_start)"
  have c0: "0 \<le> c" unfolding c_def by (rule td_seconds_nonneg)
  have d0: "td_seconds (stops ! i - starts ! i) = 0"
    using assms(3) by (simp add: td_seconds_def)
  have "interval_fraction starts stops ref_start ref_stop ! i = int_truediv c 0"
    using assms(1,2) by (simp add: interval_fraction_nth c_def d0)
  also have "\<dots> = (if c = 0 then NaN else PInf)"
    using c0 by (simp add: int_truediv_def)
  finally show ?thesis
    using assms(1) by (simp add: interval_fraction_length c_def)
qed

theorem interval_fraction_zero_duration_witness:
  "length [0::int] = length [0::int] \<and> (0::nat) < length [0::int] \<and> [0::int] ! 0 = [0] ! 0
   \<and> interval_fraction [0] [0] hour (2 * hour) ! 0 = PInf"
  using interval_fraction_zero_duration [of "[0]" "[0]" 0 hour "2 * hour"]
  by (simp add: td_seconds_def hour_def)

text \<open>
  The zero-duration source interval \<open>[0h, 0h)\<close> against the reference interval
  \<open>[1h, 2h)\<close>: the call returns, and the entry is \<open>inf\<close>.
\<close>

theorem interval_fraction_zero_duration_counterexample:
  "interval_fraction [0] [0] hour (2 * hour) = [PInf]"
  by (simp add: interval_fraction_def td_seconds_def int_truediv_def hour_def)

section \<open>Properties of the column validation\<close>

text \<open>
  Claim C9. The column validation accepts every dataframe that has at least one recognised
  stream column together with any of a \<^verbatim>\<open>datetime\<close>, a \<^verbatim>\<open>start\<close> or an \<^verbatim>\<open>end\<close> column:
  \<^verbatim>\<open>_validate_columns\<close> returns, so does the accessor's constructor, and
  \<^verbatim>\<open>df.wearable.is_valid()\<close> is left with the check of the metadata alone. The witness has a
  frame with \<^verbatim>\<open>start\<close> but neither \<^verbatim>\<open>end\<close> nor \<^verbatim>\<open>datetime\<close>, and a frame with
  \<^verbatim>\<open>datetime\<close>, \<^verbatim>\<open>start\<close> and \<^verbatim>\<open>end\<close> together.
\<close>

theorem validate_columns_accepts:
  assumes "list_ex (\<lambda>col. col \<in> set (columns df)) VALID_WEARABLE_STREAMS"
    and "''datetime'' \<in> set (columns df) \<or> ''start'' \<in> set (columns df)
         \<or> ''end'' \<in> set (columns df)"
  shows "validate_columns df = Inr ()
         \<and> wearable df = Inr df
         \<and> wearable_is_valid df =
             (case validate_metadata (attrs df) of Inl e \<Rightarrow> Inl e | Inr u \<Rightarrow> Inr True)"
proof -
  have v: "validate_columns df = Inr ()"
    using assms unfolding validate_columns_def by auto
  then show ?thesis
    by (simp add: wearable_def wearable_is_valid_def is_valid_def)
qed

theorem validate_columns_accepts_witness:
  "validate_columns \<lparr>cols = [(''start'', TimeCol [0]), (''steps'', NumCol [Fin 1])], attrs = []\<rparr>
     = Inr ()
   \<and> wearable_is_valid \<lparr>cols = [(''start'', TimeCol [0]), (''steps'', NumCol [Fin 1])], attrs = []\<rparr>
     = Inr True
   \<and> validate_columns \<lparr>cols = [(''datetime'', TimeCol [0]), (''start'', TimeCol [0]),
        (''end'', TimeCol [hour]), (''wake'', NumCol [Fin 1])], attrs = []\<rparr> = Inr ()
   \<and> wearable_is_valid \<lparr>cols = [(''datetime'', TimeCol [0]), (''start'', TimeCol [0]),
        (''end'', TimeCol [hour]), (''wake'', NumCol [Fin 1])], attrs = []\<rparr> = Inr True"
  using validate_columns_accepts
          [of "\<lparr>cols = [(''start'', TimeCol [0]), (''steps'', NumCol [Fin 1])], attrs = []\<rparr>"]
        validate_columns_accepts
          [of "\<lparr>cols = [(''datetime'', TimeCol [0]), (''start'', TimeCol [0]),
                (''end'', TimeCol [hour]), (''wake'', NumCol [Fin 1])], attrs = []\<rparr>"]
  by (simp add: columns_def VALID_WEARABLE_STREAMS_def validate_metadata_def)

section \<open>Properties of \<^verbatim>\<open>resample_df\<close>\<close>

lemmas frame_eval =
  wearable_is_valid_def wearable_def is_valid_def validate_columns_def validate_metadata_def
  columns_def VALID_WEARABLE_STREAMS_def num_column_def time_column_def date_range_def
  instant_bucket_def interval_bucket_def masked_def agg_def interval_fraction_def
  td_seconds_def int_truediv_def flt_max_def flt_min_def

text \<open>
  Claim C3 asks that resampling an instant-indexed stream with \<^verbatim>\<open>sum\<close> at its own step
  gives the stream back. The code does not: the window of a grid point is closed at both ends
  (\<^verbatim>\<open>data_datetimes <= next_datetime\<close>), so each bucket also takes the record of the next
  grid point. The hourly stream 1, 2, 3 comes back as 3, 5, 3.
\<close>

theorem resample_df_sum_native_step:
  "resample_df \<lparr>cols = [(''datetime'', TimeCol [0, hour, 2 * hour]),
                        (''steps'', NumCol [Fin 1, Fin 2, Fin 3])], attrs = []\<rparr>
               ''steps'' hour ''sum'' None None
   = Inr \<lparr>cols = [(''datetime'', TimeCol [0, hour, 2 * hour]),
                  (''steps'', NumCol [Fin 3, Fin 5, Fin 3])], attrs = []\<rparr>"
  by (simp add: resample_df_def frame_eval hour_def upt_rec)

section \<open>Properties of \<^verbatim>\<open>combine_wearable_dataframes\<close>\<close>

lemma ts_min_Min: "xs \<noteq> [] \<Longrightarrow> ts_min xs = TS (Min (set xs))"
  by (cases xs) (simp_all add: Min.set_eq_fold [symmetric])

lemma ts_max_Max: "xs \<noteq> [] \<Longrightarrow> ts_max xs = TS (Max (set xs))"
  by (cases xs) (simp_all add: Max.set_eq_fold [symmetric])

lemma fold_ts_min:
  "fold (\<lambda>item m. if ts_less item m then item else m) (map TS xs) (TS x) = TS (fold min xs x)"
  by (induction xs arbitrary: x) (auto simp: min_def)

lemma fold_ts_max:
  "fold (\<lambda>item m. if ts_less m item then item else m) (map TS xs) (TS x) = TS (fold max xs x)"
  by (induction xs arbitrary: x) (auto simp: max_def)

lemma py_min_TS: "xs \<noteq> [] \<Longrightarrow> py_min (map TS xs) = Inr (TS (Min (set xs)))"
  by (cases xs) (simp_all add: fold_ts_min Min.set_eq_fold [symmetric])

lemma py_max_TS: "xs \<noteq> [] \<Longrightarrow> py_max (map TS xs) = Inr (TS (Max (set xs)))"
  by (cases xs) (simp_all add: fold_ts_max Max.set_eq_fold [symmetric])

lemma masked_none: "\<forall>b \<in> set bm. \<not> b \<Longrightarrow> masked bm xs = []"
  by (auto simp: masked_def filter_empty_conv dest: set_zip_leftD)

lemma instant_bucket_outside:
  assumes "g + f < Min (set ds) \<or> Max (set ds) < g"
  shows "instant_bucket ds vs m f g = Fin 0"
proof -
  have "\<not> (d \<le> g + f \<and> g \<le> d)" if "d \<in> set ds" for d
  proof -
    have "Min (set ds) \<le> d" and "d \<le> Max (set ds)" using that by simp_all
    then show ?thesis using assms by linarith
  qed
  then have "masked (map (\<lambda>d. d \<le> g + f \<and> g \<le> d) ds) vs = []"
    by (intro masked_none) auto
  then show ?thesis by (simp add: instant_bucket_def Let_def)
qed

lemma interval_bucket_outside:
  assumes "g + f < Min (set ss) \<or> Max (set es) < g"
  shows "interval_bucket ss es vs m f g = Fin 0"
proof -
  have "\<not> (s \<le> g + f \<and> g < e)" if "(s, e) \<in> set (zip ss es)" for s e
  proof -
    have "s \<in> set ss" and "e \<in> set es"
      using that by (auto dest: set_zip_leftD set_zip_rightD)
    then have "Min (set ss) \<le> s" and "e \<le> Max (set es)" by simp_all
    then show ?thesis using assms by linarith
  qed
  then have "masked (map2 (\<lambda>s e. s \<le> g + f \<and> g < e) ss es) vs = []"
    by (intro masked_none) auto
  then show ?thesis by (simp add: interval_bucket_def Let_def)
qed

lemma date_range_grid:
  assumes "0 < f" and "lo \<le> hi"
  shows "date_range (TS lo) (TS hi) f = Inr (grid_points lo hi f)"
  using assms by (simp add: date_range_def grid_points_def)

lemma grid_points_sorted:
  assumes "0 < f"
  shows "sorted_wrt (<) (grid_points lo hi f)"
proof -
  have "lo + int i * f < lo + int j * f" if "i < j" for i j :: nat
    using that assms by simp
  then have "sorted_wrt (\<lambda>i j. lo + int i * f < lo + int j * f) [0..<nat ((hi - lo) div f) + 1]"
    by (simp add: sorted_wrt_iff_nth_less del: upt_Suc)
  then show ?thesis by (simp add: grid_points_def sorted_wrt_map del: upt_Suc)
qed

lemma grid_points_ends:
  assumes "0 < f" and "lo \<le> hi"
  shows "grid_points lo hi f \<noteq> []" and "hd (grid_points lo hi f) = lo"
    and "last (grid_points lo hi f) \<le> hi" and "hi < last (grid_points lo hi f) + f"
proof -
  define n where "n = nat ((hi - lo) div f)"
  have n: "int n = (hi - lo) div f"
    using assms by (simp add: n_def pos_imp_zdiv_nonneg_iff)
  show "grid_points lo hi f \<noteq> []" by (simp add: grid_points_def)
  show "hd (grid_points lo hi f) = lo" by (simp add: grid_points_def hd_map upt_rec)
  have l: "last (grid_points lo hi f) = lo + int n * f"
    by (simp add: grid_points_def n_def last_map)
  have dm: "(hi - lo) div f * f + (hi - lo) mod f = hi - lo" by (rule div_mult_mod_eq)
  have m0: "0 \<le> (hi - lo) mod f" and m1: "(hi - lo) mod f < f"
    using assms(1) by simp_all
  show "last (grid_points lo hi f) \<le> hi" unfolding l n using dm m0 by linarith
  show "hi < last (grid_points lo hi f) + f" unfolding l n using dm m1 by linarith
qed


lemma resample_method_valid:
  assumes "name \<in> set VALID_WEARABLE_STREAMS"
  shows "\<exists>m. map_of WEARABLE_RESAMPLE_METHOD name = Some m
             \<and> m \<in> set [''sum'', ''mean'', ''max'', ''min'']"
  using assms by (auto simp: VALID_WEARABLE_STREAMS_def WEARABLE_RESAMPLE_METHOD_def)

lemma map_of_in_columns: "map_of (cols df) n = Some c \<Longrightarrow> n \<in> set (columns df)"
  unfolding columns_def by (metis map_of_SomeD image_eqI fst_conv set_map)

lemma valid_stream_cases:
  assumes "valid_stream name df"
  obtains (interval) ss es vs where "''start'' \<in> set (columns df)"
      and "map_of (cols df) ''start'' = Some (TimeCol ss)"
      and "map_of (cols df) ''end'' = Some (TimeCol es)"
      and "map_of (cols df) name = Some (NumCol vs)"
      and "stream_rows df name = Some (ss, es, vs)"
      and "ss \<noteq> []" and "es \<noteq> []" and "list_all2 (\<le>) ss es"
    | (instant) ds vs where "''start'' \<notin> set (columns df)"
      and "map_of (cols df) ''datetime'' = Some (TimeCol ds)"
      and "map_of (cols df) name = Some (NumCol vs)"
      and "stream_rows df name = Some (ds, ds, vs)"
      and "ds \<noteq> []"
proof -
  obtain los his vs where r: "stream_rows df name = Some (los, his, vs)"
    and ne: "los \<noteq> []" and len: "length los = length vs" "length his = length vs"
    and le: "list_all2 (\<le>) los his"
    using assms by (auto simp: valid_stream_def split: option.splits)
  show thesis
  proof (cases "''start'' \<in> set (columns df)")
    case True
    with r have "map_of (cols df) ''start'' = Some (TimeCol los)"
      and "map_of (cols df) ''end'' = Some (TimeCol his)"
      and "map_of (cols df) name = Some (NumCol vs)"
      by (auto simp: stream_rows_def split: option.splits column.splits if_splits)
    moreover have "his \<noteq> []" using ne len by auto
    ultimately show ?thesis using interval True r ne le by blast
  next
    case False
    with r have "map_of (cols df) ''datetime'' = Some (TimeCol los)"
      and "map_of (cols df) name = Some (NumCol vs)" and "his = los"
      by (auto simp: stream_rows_def split: option.splits column.splits if_splits)
    then show ?thesis using instant False r ne by blast
  qed
qed

lemma Min_le_Max_bounds:
  assumes "list_all2 (\<le>) ss es" and "ss \<noteq> []"
  shows "Min (set ss) \<le> Max (set (es :: int list))"
proof -
  obtain s ss' where ss: "ss = s # ss'" using assms(2) by (cases ss) auto
  then obtain e es' where es: "es = e # es'" and "s \<le> e"
    using assms(1) by (auto simp: list_all2_Cons1)
  have "Min (set ss) \<le> s" by (simp add: ss)
  moreover have "e \<le> Max (set es)" by (simp add: es)
  ultimately show ?thesis using \<open>s \<le> e\<close> by linarith
qed

lemma valid_stream_bounds:
  assumes "valid_stream name df"
  shows "stream_lower (name, df) \<le> stream_upper (name, df)"
  using assms
proof (cases rule: valid_stream_cases)
  case (interval ss es vs)
  then show ?thesis by (simp add: stream_lower_def stream_upper_def Min_le_Max_bounds)
next
  case (instant ds vs)
  then show ?thesis by (simp add: stream_lower_def stream_upper_def)
qed

lemma stream_span_valid:
  assumes "valid_stream name df"
  shows "stream_span df = Inr (TS (stream_lower (name, df)), TS (stream_upper (name, df)))"
proof -
  have ok: "wearable_is_valid df = Inr True" using assms by (simp add: valid_stream_def)
  from assms show ?thesis
  proof (cases rule: valid_stream_cases)
    case (interval ss es vs)
    then show ?thesis
      by (simp add: stream_span_def ok time_column_def stream_lower_def stream_upper_def
          ts_min_Min ts_max_Max)
  next
    case (instant ds vs)
    then show ?thesis
      by (simp add: stream_span_def ok time_column_def stream_lower_def stream_upper_def
          ts_min_Min ts_max_Max)
  qed
qed

lemma collect_spans_valid:
  assumes "list_all (\<lambda>(name, df). valid_stream name df) df_dict"
  shows "collect_spans df_dict =
           Inr (map (\<lambda>s. TS (stream_lower s)) df_dict, map (\<lambda>s. TS (stream_upper s)) df_dict)"
  using assms by (induction df_dict) (auto simp: stream_span_valid)

lemma resample_df_valid:
  assumes valid: "valid_stream name df" and f: "0 < f" and lohi: "lo \<le> hi"
    and m: "m \<in> set [''sum'', ''mean'', ''max'', ''min'']"
  shows "\<exists>vals. resample_df df name f m (Some (TS lo)) (Some (TS hi))
                  = Inr (table (grid_points lo hi f) [(name, vals)])
               \<and> length vals = length (grid_points lo hi f)
               \<and> (\<forall>i < length (grid_points lo hi f).
                     grid_points lo hi f ! i + f < stream_lower (name, df)
                     \<or> stream_upper (name, df) < grid_points lo hi f ! i
                     \<longrightarrow> vals ! i = Fin 0)"
proof -
  have ok: "wearable_is_valid df = Inr True" and nm: "name \<in> set VALID_WEARABLE_STREAMS"
    using valid by (simp_all add: valid_stream_def)
  note dr = date_range_grid [OF f lohi]
  from valid show ?thesis
  proof (cases rule: valid_stream_cases)
    case (interval ss es vs)
    have c: "name \<in> set (columns df)" "''end'' \<in> set (columns df)"
      using interval by (auto intro: map_of_in_columns)
    have "resample_df df name f m (Some (TS lo)) (Some (TS hi))
            = Inr (table (grid_points lo hi f)
                 [(name, map (interval_bucket ss es vs m f) (grid_points lo hi f))])"
      using interval c ok nm m dr
      by (simp add: resample_df_def num_column_def time_column_def table_def)
    moreover have "map (interval_bucket ss es vs m f) (grid_points lo hi f) ! i = Fin 0"
      if "i < length (grid_points lo hi f)"
        and "grid_points lo hi f ! i + f < stream_lower (name, df)
             \<or> stream_upper (name, df) < grid_points lo hi f ! i" for i
      using that interval
      by (simp add: stream_lower_def stream_upper_def interval_bucket_outside)
    ultimately show ?thesis by auto
  next
    case (instant ds vs)
    have c: "name \<in> set (columns df)"
      using instant by (auto intro: map_of_in_columns)
    have "resample_df df name f m (Some (TS lo)) (Some (TS hi))
            = Inr (table (grid_points lo hi f)
                 [(name, map (instant_bucket ds vs m f) (grid_points lo hi f))])"
      using instant c ok nm m dr
      by (simp add: resample_df_def num_column_def time_column_def table_def)
    moreover have "map (instant_bucket ds vs m f) (grid_points lo hi f) ! i = Fin 0"
      if "i < length (grid_points lo hi f)"
        and "grid_points lo hi f ! i + f < stream_lower (name, df)
             \<or> stream_upper (name, df) < grid_points lo hi f ! i" for i
      using that instant
      by (simp add: stream_lower_def stream_upper_def instant_bucket_outside)
    ultimately show ?thesis by auto
  qed
qed


lemma resample_each_valid:
  assumes "list_all (\<lambda>(name, df). valid_stream name df) df_dict" and "0 < f" and "lo \<le> hi"
  shows "\<exists>valss. resample_each df_dict f (TS lo) (TS hi)
                    = Inr (map2 (\<lambda>s vals. table (grid_points lo hi f) [(fst s, vals)]) df_dict valss)
                \<and> list_all2 (zero_outside (grid_points lo hi f) f) df_dict valss"
  using assms(1)
proof (induction df_dict)
  case Nil
  then show ?case by simp
next
  case (Cons s rest)
  obtain name df where s: "s = (name, df)" by (cases s)
  have v: "valid_stream name df" using Cons.prems s by simp
  obtain m where m: "map_of WEARABLE_RESAMPLE_METHOD name = Some m"
    "m \<in> set [''sum'', ''mean'', ''max'', ''min'']"
    using resample_method_valid v unfolding valid_stream_def by blast
  obtain vals where vals:
    "resample_df df name f m (Some (TS lo)) (Some (TS hi))
       = Inr (table (grid_points lo hi f) [(name, vals)])"
    "zero_outside (grid_points lo hi f) f (name, df) vals"
    using resample_df_valid [OF v assms(2,3) m(2)] unfolding zero_outside_def by blast
  obtain valss where valss:
    "resample_each rest f (TS lo) (TS hi)
       = Inr (map2 (\<lambda>s vals. table (grid_points lo hi f) [(fst s, vals)]) rest valss)"
    "list_all2 (zero_outside (grid_points lo hi f) f) rest valss"
    using Cons by auto
  have "resample_each (s # rest) f (TS lo) (TS hi)
          = Inr (map2 (\<lambda>s vals. table (grid_points lo hi f) [(fst s, vals)]) (s # rest) (vals # valss))"
    using m(1) vals(1) valss(1) by (simp add: s)
  moreover have "list_all2 (zero_outside (grid_points lo hi f) f) (s # rest) (vals # valss)"
    using vals(2) valss(2) by (simp add: s)
  ultimately show ?case by blast
qed

lemma remdups_append_subset: "set xs \<subseteq> set ys \<Longrightarrow> remdups (xs @ ys) = remdups ys"
  by (induction xs) auto

lemma merge_keys:
  assumes "sorted_wrt (<) (ks :: int list)"
  shows "sort (remdups (ks @ ks)) = ks"
proof -
  have "sorted ks" and "distinct ks" using assms by (simp_all add: strict_sorted_iff)
  then show ?thesis by (simp add: remdups_append_subset distinct_remdups_id sorted_sort_id)
qed

lemma filter_eq_index: "i < n \<Longrightarrow> filter (\<lambda>j. j = i) [0..<n] = [i]"
  by (induction n) (auto simp: less_Suc_eq)

lemma positions_distinct:
  assumes "distinct ks" and "i < length ks"
  shows "positions (ks ! i) ks = [i]"
proof -
  have "filter (\<lambda>j. ks ! j = ks ! i) [0..<length ks] = filter (\<lambda>j. j = i) [0..<length ks]"
    using assms by (intro filter_cong) (auto simp: nth_eq_iff_index_eq)
  then show ?thesis using assms(2) by (simp add: positions_def filter_eq_index)
qed

lemma outer_join_same:
  assumes "sorted_wrt (<) ks"
  shows "outer_join ks ks = map (\<lambda>i. (ks ! i, Some i, Some i)) [0..<length ks]"
proof -
  have d: "distinct ks" using assms by (simp add: strict_sorted_iff)
  let ?F = "\<lambda>k. map (\<lambda>(i, j). (k, i, j)) (join_rows (positions k ks) (positions k ks))"
  have "outer_join ks ks = concat (map ?F ks)"
    by (simp add: outer_join_def merge_keys [OF assms])
  also have "\<dots> = concat (map ?F (map (\<lambda>i. ks ! i) [0..<length ks]))"
    by (simp add: map_nth)
  also have "\<dots> = concat (map (\<lambda>i. [(ks ! i, Some i, Some i)]) [0..<length ks])"
    unfolding map_map
    by (rule arg_cong [where f = concat], rule map_cong)
       (simp_all add: positions_distinct [OF d] join_rows_def)
  also have "\<dots> = map (\<lambda>i. (ks ! i, Some i, Some i)) [0..<length ks]"
    by simp
  finally show ?thesis .
qed

lemma take_columns_all:
  assumes "\<forall>(n, v) \<in> set cs. length v = k"
  shows "take_columns rn (map Some [0..<k]) (map (\<lambda>(n, v). (n, NumCol v)) cs)
           = Inr (map (\<lambda>(n, v). (rn n, NumCol v)) cs)"
  using assms
proof (induction cs)
  case Nil
  then show ?case by simp
next
  case (Cons c cs)
  obtain n v where c: "c = (n, v)" by (cases c)
  have "length v = k" using Cons.prems c by simp
  then have "map (\<lambda>i. case i of None \<Rightarrow> NaN | Some j \<Rightarrow> v ! j) (map Some [0..<k]) = v"
    using map_nth [of v] by (simp add: comp_def)
  then show ?case using Cons c by simp
qed


lemma table_key: "time_column (table ks cs) ''datetime'' = Inr ks"
  by (simp add: time_column_def table_def)

lemma filter_not_key:
  assumes "''datetime'' \<notin> fst ` set cs"
  shows "filter (\<lambda>(n, c). n \<noteq> ''datetime'') (map (\<lambda>(n, v). (n, NumCol v)) cs)
           = map (\<lambda>(n, v). (n, NumCol v)) cs"
  using assms by (induction cs) auto

lemma merge_outer_table:
  assumes ks: "sorted_wrt (<) ks"
    and len: "\<forall>(n, v) \<in> set cs. length v = length ks" and lenv: "length v = length ks"
    and fresh: "n \<notin> fst ` set cs" and nokey: "''datetime'' \<notin> fst ` set cs" "n \<noteq> ''datetime''"
  shows "merge_outer (table ks cs) (table ks [(n, v)]) = Inr (table ks (cs @ [(n, v)]))"
proof -
  let ?rows = "map (\<lambda>i. (ks ! i, Some i, Some i)) [0..<length ks]"
  have idx: "map (\<lambda>(k, i, j). i) ?rows = map Some [0..<length ks]"
    "map (\<lambda>(k, i, j). j) ?rows = map Some [0..<length ks]"
    "map (\<lambda>(k, i, j). k) ?rows = ks"
    using map_nth [of ks] by (simp_all add: comp_def)
  have l: "filter (\<lambda>(n, c). n \<noteq> ''datetime'') (cols (table ks cs))
             = map (\<lambda>(n, v). (n, NumCol v)) cs"
    using filter_not_key [OF nokey(1)] by (simp add: table_def)
  have r: "filter (\<lambda>(n, c). n \<noteq> ''datetime'') (cols (table ks [(n, v)])) = [(n, NumCol v)]"
    using nokey(2) by (simp add: table_def)
  have ln: "map (\<lambda>(m, w). (if m \<in> set (map fst [(n, NumCol v)]) then m @ ''_x'' else m, NumCol w)) cs
              = map (\<lambda>(m, w). (m, NumCol w)) cs"
    using fresh by (intro map_cong refl) force
  have names: "map fst (map (\<lambda>(n, v). (n, NumCol v)) cs) = map fst cs"
    by (induction cs) auto
  have tl: "take_columns (\<lambda>m. if m \<in> set (map fst [(n, NumCol v)]) then m @ ''_x'' else m)
              (map Some [0..<length ks]) (map (\<lambda>(n, v). (n, NumCol v)) cs)
            = Inr (map (\<lambda>(m, w). (m, NumCol w)) cs)"
    using take_columns_all [OF len] ln by simp
  have "n \<notin> set (map fst cs)" using fresh by simp
  then have tr: "take_columns (\<lambda>m. if m \<in> set (map fst cs) then m @ ''_y'' else m)
              (map Some [0..<length ks]) [(n, NumCol v)]
            = Inr [(n, NumCol v)]"
    using lenv map_nth [of v] by (simp add: comp_def del: set_map)
  have a: "attrs (table ks cs') = []" for cs'
    by (simp add: table_def)
  have "merge_outer (table ks cs) (table ks [(n, v)])
          = Inr \<lparr>cols = (''datetime'', TimeCol ks) # map (\<lambda>(m, w). (m, NumCol w)) cs @ [(n, NumCol v)],
                 attrs = []\<rparr>"
    by (simp only: merge_outer_def table_key Let_def sum.case outer_join_same [OF ks] idx l r
          names tl tr a simp_thms if_True)
  then show ?thesis by (simp add: table_def)
qed


lemma merge_all_tables:
  assumes "sorted_wrt (<) ks"
    and "\<forall>(n, v) \<in> set (cs @ rest). length v = length ks"
    and "distinct (map fst (cs @ rest))"
    and "''datetime'' \<notin> fst ` set (cs @ rest)"
  shows "merge_all (table ks cs) (map (\<lambda>c. table ks [c]) rest) = Inr (table ks (cs @ rest))"
  using assms(2-)
proof (induction rest arbitrary: cs)
  case Nil
  then show ?case by simp
next
  case (Cons c rest)
  obtain n v where c: "c = (n, v)" by (cases c)
  have "merge_outer (table ks cs) (table ks [(n, v)]) = Inr (table ks (cs @ [(n, v)]))"
    using Cons.prems c by (intro merge_outer_table [OF assms(1)]) auto
  moreover have "merge_all (table ks (cs @ [(n, v)])) (map (\<lambda>c. table ks [c]) rest)
                   = Inr (table ks ((cs @ [(n, v)]) @ rest))"
    using Cons.prems c by (intro Cons.IH) auto
  ultimately show ?case by (simp add: c)
qed

lemma sort_values_table:
  assumes "sorted_wrt (<) ks" and "\<forall>(n, v) \<in> set cs. length v = length ks"
  shows "sort_values (table ks cs) = Inr (table ks cs)"
proof -
  have "sorted ks" using assms(1) by (simp add: strict_sorted_iff)
  then have "sorted (map (\<lambda>i. ks ! i) [0..<length ks])" by (simp add: map_nth)
  then have perm: "sort_key (\<lambda>i. ks ! i) [0..<length ks] = [0..<length ks]"
    by (rule sort_key_id_if_sorted)
  have "map (\<lambda>(n, c). (n, reorder [0..<length ks] c)) (map (\<lambda>(n, v). (n, NumCol v)) cs)
          = map (\<lambda>(n, v). (n, NumCol v)) cs"
    using assms(2)
  proof (induction cs)
    case Nil
    then show ?case by simp
  next
    case (Cons c cs)
    obtain n v where c: "c = (n, v)" by (cases c)
    have "map (\<lambda>i. v ! i) [0..<length ks] = v" using Cons.prems c map_nth [of v] by simp
    then show ?case using Cons c by simp
  qed
  then show ?thesis
    by (simp add: sort_values_def table_key perm) (simp add: table_def map_nth)
qed

lemma add_metadata_table:
  assumes "validate_metadata m = Inr ()" and "(n, v) \<in> set cs" and "n \<in> set VALID_WEARABLE_STREAMS"
  shows "add_metadata (table ks cs) m
           = Inr ((table ks cs)\<lparr>attrs := fold (\<lambda>(key, v) a. AList.update key v a) m []\<rparr>)"
proof -
  have "n \<in> set (columns (table ks cs))"
    using assms(2) by (force simp: columns_def table_def)
  then have "list_ex (\<lambda>col. col \<in> set (columns (table ks cs))) VALID_WEARABLE_STREAMS"
    using assms(3) unfolding list_ex_iff by blast
  moreover have "''datetime'' \<in> set (columns (table ks cs))"
    by (simp add: columns_def table_def)
  ultimately have "validate_columns (table ks cs) = Inr ()"
    unfolding validate_columns_def by simp
  then show ?thesis using assms(1) by (simp add: add_metadata_def wearable_def table_def)
qed

lemma table_num_column:
  assumes "distinct (map fst cs)" and "(n, v) \<in> set cs" and "n \<noteq> ''datetime''"
  shows "num_column ((table ks cs)\<lparr>attrs := a\<rparr>) n = Inr v"
proof -
  have "distinct (map fst (map (\<lambda>(n, v). (n, NumCol v)) cs))"
    using assms(1) by (simp add: case_prod_unfold comp_def)
  moreover have "(n, NumCol v) \<in> set (map (\<lambda>(n, v). (n, NumCol v)) cs)"
    using assms(2) by force
  ultimately have "map_of (map (\<lambda>(n, v). (n, NumCol v)) cs) n = Some (NumCol v)"
    by (rule map_of_is_SomeI)
  then show ?thesis using assms(3) by (simp add: num_column_def table_def)
qed

text \<open>
  Claim C6, as the code has it. For a non-empty dictionary of valid input streams under distinct
  names, a positive frequency and valid (or no) metadata, \<^verbatim>\<open>combine_wearable_dataframes\<close>
  returns a table with the key column and one column per stream. The key column is the one
  uniform grid \<^verbatim>\<open>pd.date_range\<close> builds from the least lower bound to the greatest upper
  bound over all streams: it starts at the least lower bound, ends within one step of the
  greatest upper bound, and is strictly ascending, so each timestamp occurs once. A stream's
  column has one value per grid point, and the value is 0 at every grid point \<open>g\<close> with
  \<open>g + freq\<close> before the stream's lower bound or \<open>g\<close> after its upper bound. (A grid point
  before the stream's coverage whose window \<open>[g, g + freq]\<close> reaches into it takes the records
  it finds there: see the counterexample below.)
\<close>

theorem combine_wearable_dataframes_grid:
  assumes ne: "df_dict \<noteq> []" and dist: "distinct (map fst df_dict)"
    and valid: "list_all (\<lambda>(name, df). valid_stream name df) df_dict"
    and f: "0 < freq"
    and meta: "case metadata of None \<Rightarrow> True | Some m \<Rightarrow> validate_metadata m = Inr ()"
  shows "\<exists>out grid.
           combine_wearable_dataframes df_dict freq metadata = Inr out
           \<and> date_range (TS (common_lower df_dict)) (TS (common_upper df_dict)) freq = Inr grid
           \<and> columns out = ''datetime'' # map fst df_dict
           \<and> time_column out ''datetime'' = Inr grid
           \<and> sorted_wrt (<) grid
           \<and> hd grid = common_lower df_dict
           \<and> last grid \<le> common_upper df_dict \<and> common_upper df_dict < last grid + freq
           \<and> list_all (\<lambda>s. \<exists>vals. num_column out (fst s) = Inr vals
                                    \<and> zero_outside grid freq s vals) df_dict"
proof -
  define lo where "lo = common_lower df_dict"
  define hi where "hi = common_upper df_dict"
  define grid where "grid = grid_points lo hi freq"
  obtain s0 where s0: "s0 \<in> set df_dict" using ne by (cases df_dict) auto
  have v: "valid_stream (fst s) (snd s)" if "s \<in> set df_dict" for s
    using valid that by (auto simp: list_all_iff)
  have "lo \<le> stream_lower s0" unfolding lo_def common_lower_def using s0 by simp
  moreover have "stream_lower s0 \<le> stream_upper s0"
    using valid_stream_bounds [OF v [OF s0]] by simp
  moreover have "stream_upper s0 \<le> hi" unfolding hi_def common_upper_def using s0 by simp
  ultimately have lohi: "lo \<le> hi" by linarith
  note spans = collect_spans_valid [OF valid]
  have pmin: "py_min (map (\<lambda>s. TS (stream_lower s)) df_dict) = Inr (TS lo)"
    using ne py_min_TS [of "map stream_lower df_dict"]
    by (simp add: comp_def lo_def common_lower_def)
  have pmax: "py_max (map (\<lambda>s. TS (stream_upper s)) df_dict) = Inr (TS hi)"
    using ne py_max_TS [of "map stream_upper df_dict"]
    by (simp add: comp_def hi_def common_upper_def)
  obtain valss where rs:
    "resample_each df_dict freq (TS lo) (TS hi)
       = Inr (map2 (\<lambda>s vals. table grid [(fst s, vals)]) df_dict valss)"
    and zo: "list_all2 (zero_outside grid freq) df_dict valss"
    using resample_each_valid [OF valid f lohi] unfolding grid_def by blast
  have len: "length valss = length df_dict" using zo by (simp add: list_all2_lengthD)
  define cs where "cs = zip (map fst df_dict) valss"
  have frames: "map2 (\<lambda>s vals. table grid [(fst s, vals)]) df_dict valss
                  = map (\<lambda>c. table grid [c]) cs"
    by (simp add: cs_def zip_map1 case_prod_unfold)
  have names: "map fst cs = map fst df_dict" using len by (simp add: cs_def)
  have cs_ne: "cs \<noteq> []" using ne len by (cases df_dict; cases valss) (auto simp: cs_def)
  obtain c0 rest where cs: "cs = c0 # rest" using cs_ne by (cases cs) auto
  obtain n0 v0 where c0: "c0 = (n0, v0)" by (cases c0)
  have sorted: "sorted_wrt (<) grid" unfolding grid_def by (rule grid_points_sorted [OF f])
  have col: "length w = length grid \<and> n \<in> set VALID_WEARABLE_STREAMS
             \<and> (\<exists>s \<in> set df_dict. n = fst s \<and> zero_outside grid freq s w)"
    if nw: "(n, w) \<in> set cs" for n w
  proof -
    obtain j where j: "j < length cs" "cs ! j = (n, w)" using nw by (auto simp: in_set_conv_nth)
    then have jd: "j < length df_dict" using names by (metis length_map)
    have n: "n = fst (df_dict ! j)" and w: "w = valss ! j"
      using j jd len by (simp_all add: cs_def)
    have z: "zero_outside grid freq (df_dict ! j) w"
      using zo jd w by (simp add: list_all2_nthD)
    have "valid_stream (fst (df_dict ! j)) (snd (df_dict ! j))" using v jd by simp
    then show ?thesis using z n jd unfolding valid_stream_def zero_outside_def
      by (metis nth_mem)
  qed
  have lens: "\<forall>(n, w) \<in> set cs. length w = length grid" using col by auto
  have "''datetime'' \<notin> set VALID_WEARABLE_STREAMS" by (simp add: VALID_WEARABLE_STREAMS_def)
  then have nokey: "''datetime'' \<notin> fst ` set cs"
    using col by force
  have dcs: "distinct (map fst cs)" using dist names by simp
  have "merge_all (table grid [c0]) (map (\<lambda>c. table grid [c]) rest)
          = Inr (table grid ([c0] @ rest))"
    using lens nokey dcs by (intro merge_all_tables [OF sorted]) (simp_all add: cs)
  then have merged: "merge_all (table grid [(n0, v0)]) (map (\<lambda>c. table grid [c]) rest)
                       = Inr (table grid cs)"
    by (simp add: cs c0)
  have sv: "sort_values (table grid cs) = Inr (table grid cs)"
    by (rule sort_values_table [OF sorted lens])
  define m where "m = (case metadata of Some m \<Rightarrow> m
                        | None \<Rightarrow> [(''data_id'', PStr ''combined_dataframe'')])"
  have vm: "validate_metadata m = Inr ()"
    using meta by (cases metadata) (simp_all add: m_def validate_metadata_def)
  have "(n0, v0) \<in> set cs" by (simp add: cs c0)
  then have "add_metadata (table grid cs) m
               = Inr ((table grid cs)\<lparr>attrs := fold (\<lambda>(key, v) a. AList.update key v a) m []\<rparr>)"
    using add_metadata_table [OF vm, of n0 v0 cs grid] col by blast
  then obtain a where am: "add_metadata (table grid cs) m = Inr ((table grid cs)\<lparr>attrs := a\<rparr>)"
    by blast
  define out where "out = (table grid cs)\<lparr>attrs := a\<rparr>"
  have run: "combine_wearable_dataframes df_dict freq metadata = Inr out"
    unfolding combine_wearable_dataframes_def
    by (simp add: spans pmin pmax rs frames cs c0 merged [unfolded cs c0] sv [unfolded cs c0]
        am [unfolded cs c0 m_def] out_def)
  have dr: "date_range (TS lo) (TS hi) freq = Inr grid"
    unfolding grid_def by (rule date_range_grid [OF f lohi])
  have ocols: "columns out = ''datetime'' # map fst df_dict"
    using names by (simp add: out_def columns_def table_def case_prod_unfold comp_def)
  have okey: "time_column out ''datetime'' = Inr grid"
    by (simp add: out_def time_column_def table_def)
  have ends: "hd grid = lo" "last grid \<le> hi" "hi < last grid + freq"
    unfolding grid_def using grid_points_ends [OF f lohi] by simp_all
  have each: "\<exists>vals. num_column out (fst s) = Inr vals \<and> zero_outside grid freq s vals"
    if s: "s \<in> set df_dict" for s
  proof -
    obtain j where j: "j < length df_dict" "df_dict ! j = s" using s by (auto simp: in_set_conv_nth)
    have mem: "(fst s, valss ! j) \<in> set cs"
      using j len unfolding cs_def by (metis (no_types, lifting) in_set_zip fst_conv snd_conv length_map nth_map)
    have key: "fst s \<noteq> ''datetime''" using nokey mem by force
    have "num_column out (fst s) = Inr (valss ! j)"
      unfolding out_def by (rule table_num_column [OF dcs mem key])
    moreover have "zero_outside grid freq s (valss ! j)"
      using zo j by (metis list_all2_nthD)
    ultimately show ?thesis by blast
  qed
  then have all: "list_all (\<lambda>s. \<exists>vals. num_column out (fst s) = Inr vals
                                    \<and> zero_outside grid freq s vals) df_dict"
    by (simp add: list_all_iff)
  show ?thesis
    using run dr ocols okey sorted ends all unfolding lo_def hi_def by blast
qed



theorem combine_wearable_dataframes_grid_witness:
  "[(''steps'', \<lparr>cols = [(''datetime'', TimeCol [0, hour, 2 * hour]),
                       (''steps'', NumCol [Fin 1, Fin 2, Fin 3])], attrs = []\<rparr>),
    (''heartrate'', \<lparr>cols = [(''datetime'', TimeCol [90 * minute, 150 * minute]),
                           (''heartrate'', NumCol [Fin 60, Fin 70])], attrs = []\<rparr>),
    (''wake'', \<lparr>cols = [(''start'', TimeCol [2 * hour, 3 * hour]),
                      (''end'', TimeCol [3 * hour, 5 * hour]),
                      (''wake'', NumCol [Fin 1, Fin 1])], attrs = []\<rparr>)] \<noteq> []
   \<and> distinct (map fst
        [(''steps'', \<lparr>cols = [(''datetime'', TimeCol [0, hour, 2 * hour]),
                       (''steps'', NumCol [Fin 1, Fin 2, Fin 3])], attrs = []\<rparr>),
         (''heartrate'', \<lparr>cols = [(''datetime'', TimeCol [90 * minute, 150 * minute]),
                           (''heartrate'', NumCol [Fin 60, Fin 70])], attrs = []\<rparr>),
         (''wake'', \<lparr>cols = [(''start'', TimeCol [2 * hour, 3 * hour]),
                      (''end'', TimeCol [3 * hour, 5 * hour]),
                      (''wake'', NumCol [Fin 1, Fin 1])], attrs = []\<rparr>)])
   \<and> list_all (\<lambda>(name, df). valid_stream name df)
        [(''steps'', \<lparr>cols = [(''datetime'', TimeCol [0, hour, 2 * hour]),
                       (''steps'', NumCol [Fin 1, Fin 2, Fin 3])], attrs = []\<rparr>),
         (''heartrate'', \<lparr>cols = [(''datetime'', TimeCol [90 * minute, 150 * minute]),
                           (''heartrate'', NumCol [Fin 60, Fin 70])], attrs = []\<rparr>),
         (''wake'', \<lparr>cols = [(''start'', TimeCol [2 * hour, 3 * hour]),
                      (''end'', TimeCol [3 * hour, 5 * hour]),
                      (''wake'', NumCol [Fin 1, Fin 1])], attrs = []\<rparr>)]
   \<and> 0 < hour
   \<and> combine_wearable_dataframes
        [(''steps'', \<lparr>cols = [(''datetime'', TimeCol [0, hour, 2 * hour]),
                       (''steps'', NumCol [Fin 1, Fin 2, Fin 3])], attrs = []\<rparr>),
         (''heartrate'', \<lparr>cols = [(''datetime'', TimeCol [90 * minute, 150 * minute]),
                           (''heartrate'', NumCol [Fin 60, Fin 70])], attrs = []\<rparr>),
         (''wake'', \<lparr>cols = [(''start'', TimeCol [2 * hour, 3 * hour]),
                      (''end'', TimeCol [3 * hour, 5 * hour]),
                      (''wake'', NumCol [Fin 1, Fin 1])], attrs = []\<rparr>)] hour None
       = Inr \<lparr>cols = [(''datetime'', TimeCol [0, hour, 2 * hour, 3 * hour, 4 * hour, 5 * hour]),
                      (''steps'', NumCol [Fin 3, Fin 5, Fin 3, Fin 0, Fin 0, Fin 0]),
                      (''heartrate'', NumCol [Fin 0, Fin 60, Fin 70, Fin 0, Fin 0, Fin 0]),
                      (''wake'', NumCol [Fin 0, Fin 0, Fin 1, Fin (1 / 2), Fin (1 / 2), Fin 0])],
               attrs = [(''data_id'', PStr ''combined_dataframe'')]\<rparr>
   \<and> (\<exists>grid. time_column
          \<lparr>cols = [(''datetime'', TimeCol [0, hour, 2 * hour, 3 * hour, 4 * hour, 5 * hour]),
                   (''steps'', NumCol [Fin 3, Fin 5, Fin 3, Fin 0, Fin 0, Fin 0]),
                   (''heartrate'', NumCol [Fin 0, Fin 60, Fin 70, Fin 0, Fin 0, Fin 0]),
                   (''wake'', NumCol [Fin 0, Fin 0, Fin 1, Fin (1 / 2), Fin (1 / 2), Fin 0])],
            attrs = [(''data_id'', PStr ''combined_dataframe'')]\<rparr> ''datetime'' = Inr grid
          \<and> sorted_wrt (<) grid)"
  (is "?dd \<noteq> [] \<and> ?dist \<and> ?valid \<and> ?f \<and> combine_wearable_dataframes ?dd hour None = Inr ?out \<and> ?grid")
proof -
  have ne: "?dd \<noteq> []" by simp
  have dist: ?dist by simp
  have valid: ?valid by code_simp
  have f: ?f by (simp add: hour_def)
  have meta: "case None :: (string \<times> pyval) list option of None \<Rightarrow> True
              | Some m \<Rightarrow> validate_metadata m = Inr ()" by simp
  have run: "combine_wearable_dataframes ?dd hour None = Inr ?out" by code_simp
  from combine_wearable_dataframes_grid [OF ne dist valid f meta] run
  have ?grid by auto
  with ne dist valid f run show ?thesis by blast
qed

text \<open>
  A stream of steps on the hours 0, 1, 2 and a stream of heart rates at 1:30 and 2:30, combined
  at one hour: the grid point 1:00 lies outside the coverage of the heart rates, which begins at
  1:30, and their column holds 60 there, not 0.
\<close>

theorem combine_wearable_dataframes_counterexample:
  "combine_wearable_dataframes
     [(''steps'', \<lparr>cols = [(''datetime'', TimeCol [0, hour, 2 * hour]),
                          (''steps'', NumCol [Fin 1, Fin 2, Fin 3])], attrs = []\<rparr>),
      (''heartrate'', \<lparr>cols = [(''datetime'', TimeCol [90 * minute, 150 * minute]),
                              (''heartrate'', NumCol [Fin 60, Fin 70])], attrs = []\<rparr>)] hour None
   = Inr \<lparr>cols = [(''datetime'', TimeCol [0, hour, 2 * hour]),
                  (''steps'', NumCol [Fin 3, Fin 5, Fin 3]),
                  (''heartrate'', NumCol [Fin 0, Fin 60, Fin 70])],
           attrs = [(''data_id'', PStr ''combined_dataframe'')]\<rparr>
   \<and> hour < 90 * minute"
  by code_simp

section \<open>Properties of \<^verbatim>\<open>esri\<close>\<close>

lemma esri_validate_NoneD:
  assumes "esri_validate time light D dt a = None"
  shows "length time = length light" and "diff time \<noteq> []"
    and "list_all (\<lambda>d. isclose d (hd (diff time))) (diff time)"
    and "1 \<le> D" and "0 < dt" and "0 \<le> a"
  using assms by (auto simp: esri_validate_def split: if_splits)



lemma arange_empty:
  assumes "0 < step" and "stop \<le> start"
  shows "arange start stop step = Inr []"
proof -
  have "(stop - start) / step \<le> 0" using assms by (simp add: divide_le_0_iff)
  then have "\<lceil>(stop - start) / step\<rceil> \<le> 0" by (simp add: ceiling_le_zero)
  then show ?thesis using assms by (simp add: arange_def)
qed

lemma esri_short_series:
  assumes "esri_validate time light D dt a = None"
    and "last time - hd time \<le> of_int D * 24"
  shows "esri model time light D dt a p = ([], Inr ([], []))"
proof -
  have "arange (hd time) (last time - of_int D * 24) dt = Inr []"
    using esri_validate_NoneD(5) [OF assms(1)] assms(2) by (intro arange_empty) simp_all
  then show ?thesis using assms(1) by (simp add: esri_def)
qed

text \<open>
  Claim C2, as the code has it. With \<open>analysis_days = 4\<close> and \<open>esri_dt = 1.0\<close>, a valid evenly
  spaced series that spans exactly 96 hours has no starting point: the candidates are
  \<^verbatim>\<open>np.arange(time[0], time[-1] - 96, 1.0)\<close>, which excludes its stop \<open>time[-1] - 96 = time[0]\<close>.
  The call returns an empty time array and an empty value array, and runs no simulation.
\<close>

theorem esri_four_day_series:
  assumes "esri_validate time light 4 1 a = None"
    and "last time - hd time = 96"
  shows "esri model time light 4 1 a p = ([], Inr ([], []))"
  using assms esri_short_series [of time light 4 1 a model p] by simp

theorem esri_four_day_series_witness:
  "esri_validate [0, 24, 48, 72, 96] [0, 0, 0, 0, 0] 4 1 (1 / 10) = None
   \<and> last [0, 24, 48, 72, 96 :: real] - hd [0, 24, 48, 72, 96] = 96
   \<and> esri (\<lambda>t c l. Fin 1) [0, 24, 48, 72, 96] [0, 0, 0, 0, 0] 4 1 (1 / 10) (165238233 / 100000000)
       = ([], Inr ([], []))"
proof -
  have v: "esri_validate [0, 24, 48, 72, 96] [0, 0, 0, 0, 0] 4 1 (1 / 10) = None"
    by (simp add: esri_validate_def isclose_def)
  have s: "last [0, 24, 48, 72, 96 :: real] - hd [0, 24, 48, 72, 96] = 96" by simp
  from esri_four_day_series [OF v s] v s show ?thesis by blast
qed

text \<open>
  The hourly series of 97 points from hour 0 to hour 96, at 100 lux throughout, with the
  default amplitude and phase: the returned time array is empty, not \<open>[0]\<close>.
\<close>

theorem esri_four_day_series_counterexample:
  "last (map real [0..<97]) - hd (map real [0..<97]) = 96
   \<and> esri_validate (map real [0..<97]) (replicate 97 100) 4 1 (1 / 10) = None
   \<and> esri (\<lambda>t c l. Fin 1) (map real [0..<97]) (replicate 97 100) 4 1 (1 / 10)
          (165238233 / 100000000)
       = ([], Inr ([], []))"
  by code_simp



text \<open>
  Claim C7. Each parameter error of \<^verbatim>\<open>esri\<close> (time and light arrays of different lengths, a
  time step that is not constant, \<open>analysis_days\<close> below 1, \<open>esri_dt\<close> not above 0, a negative
  initial amplitude) ends the call with an exception, whatever the oscillator model is: the
  event list is empty, so no simulation has run, and no arrays are returned.
\<close>

theorem esri_parameter_errors:
  assumes "length time \<noteq> length light
           \<or> \<not> list_all (\<lambda>d. isclose d (hd (diff time))) (diff time)
           \<or> D < 1 \<or> dt \<le> 0 \<or> a < 0"
  shows "\<exists>e. esri model time light D dt a p = ([], Inl e) \<and> (e = ValueError \<or> e = IndexError)"
  using assms by (auto simp: esri_def esri_validate_def)

theorem esri_parameter_errors_witness:
  "esri (\<lambda>t c l. Fin 1) [0, 1, 2] [0, 0] 4 1 (1 / 10) 0 = ([], Inl ValueError)
   \<and> esri (\<lambda>t c l. Fin 1) [0, 1, 3] [0, 0, 0] 4 1 (1 / 10) 0 = ([], Inl ValueError)
   \<and> esri (\<lambda>t c l. Fin 1) [0, 1, 2] [0, 0, 0] 0 1 (1 / 10) 0 = ([], Inl ValueError)
   \<and> esri (\<lambda>t c l. Fin 1) [0, 1, 2] [0, 0, 0] 4 0 (1 / 10) 0 = ([], Inl ValueError)
   \<and> esri (\<lambda>t c l. Fin 1) [0, 1, 2] [0, 0, 0] 4 1 (- 1) 0 = ([], Inl ValueError)"
  using esri_parameter_errors [of "[0, 1, 2]" "[0, 0]" 4 1 "1 / 10" "\<lambda>t c l. Fin 1" 0]
    esri_parameter_errors [of "[0, 1, 3]" "[0, 0, 0]" 4 1 "1 / 10" "\<lambda>t c l. Fin 1" 0]
    esri_parameter_errors [of "[0, 1, 2]" "[0, 0, 0]" 0 1 "1 / 10" "\<lambda>t c l. Fin 1" 0]
    esri_parameter_errors [of "[0, 1, 2]" "[0, 0, 0]" 4 0 "1 / 10" "\<lambda>t c l. Fin 1" 0]
    esri_parameter_errors [of "[0, 1, 2]" "[0, 0, 0]" 4 1 "- 1" "\<lambda>t c l. Fin 1" 0]
  by (simp add: esri_def esri_validate_def isclose_def)




end
